theory Spec2Isabelle
  imports Main "HOL-Library.Sublist"
begin

section \<open>The node client of the COSI CSI adapter (pkg/node/client.go)\<close>

text \<open>
  The file is a linear client: it parses the volume context of a mount request, looks up
  a chain of custom resources through two API clients, extracts the protocol connection
  of a bucket and toggles a finalizer on a BucketAccess. The API clients are external;
  they are modelled by the answers they give, and every call made to them is recorded in
  a trace, in the order of the calls. The \<^verbatim>\<open>klog\<close> lines are not modelled.
\<close>

subsection \<open>Errors and formatting\<close>

text \<open>
  A Go \<^verbatim>\<open>error\<close> is modelled by the message its \<^verbatim>\<open>Error()\<close> method returns. A
  result pair \<^verbatim>\<open>(*T, error)\<close> of an API call is a pair of options, \<open>None\<close> for
  \<^verbatim>\<open>nil\<close>: the Go type allows all four combinations and the code tests both parts.
\<close>

type_synonym error = string

text \<open>\<^verbatim>\<open>fmt.Sprintf("%s/%s", ns, name)\<close>\<close>

definition Sprintf_ns_name :: "string \<Rightarrow> string \<Rightarrow> string" where
  "Sprintf_ns_name ns name = ns @ ''/'' @ name"

text \<open>\<^verbatim>\<open>errors.Wrap(err, msg)\<close> of github.com/pkg/errors: the message, a colon, the cause.\<close>

definition errors_Wrap :: "error \<Rightarrow> string \<Rightarrow> error" where
  "errors_Wrap err msg = msg @ '': '' @ err"

text \<open>
  Modelled from the spec: \<^verbatim>\<open>logErr\<close> is defined in the package outside client.go.
  Section 7 of the specification says that every failure is "logged and returned upward",
  so \<open>logErr\<close> returns the error it is given; the log line is not modelled.
\<close>

definition logErr :: "error \<Rightarrow> error" where
  "logErr e = e"

text \<open>
  The file also uses functions that are defined elsewhere and whose results it does not
  determine; they are parameters of the functions that use them:
  \<^item> \<open>q\<close>, the rendering of a string by the \<^verbatim>\<open>%q\<close> verb of \<^verbatim>\<open>fmt\<close>;
  \<^item> \<open>getError\<close>, the package's helper that builds the error of a failed lookup from the
    resource kind, the identifier and the cause;
  \<^item> \<open>fmt_v\<close> and \<open>json_Marshal\<close>, the \<^verbatim>\<open>%+v\<close> rendering and the JSON encoding of the
    protocol structures of the COSI API.
\<close>

subsection \<open>Volume context\<close>

definition podNameKey :: string where
  "podNameKey = ''csi.storage.k8s.io/pod.name''"

definition podNamespaceKey :: string where
  "podNamespaceKey = ''csi.storage.k8s.io/pod.namespace''"

definition barNameKey :: string where
  "barNameKey = ''bar-name''"

definition barNamespaceKey :: string where
  "barNamespaceKey = ''bar-namespace''"

definition parseValue :: "string \<Rightarrow> (string \<rightharpoonup> string) \<Rightarrow> error + string" where
  "parseValue key volCtx =
     (case volCtx key of
        None \<Rightarrow> Inl (''required volume context key unset: '' @ key)
      | Some v \<Rightarrow> Inr v)"

definition parseVolumeContext ::
  "(string \<rightharpoonup> string) \<Rightarrow> error + (string \<times> string \<times> string \<times> string)" where
  "parseVolumeContext volCtx =
     (case parseValue barNameKey volCtx of
        Inl err \<Rightarrow> Inl err
      | Inr barname \<Rightarrow>
     (case parseValue barNamespaceKey volCtx of
        Inl err \<Rightarrow> Inl err
      | Inr barns \<Rightarrow>
     (case parseValue podNameKey volCtx of
        Inl err \<Rightarrow> Inl err
      | Inr podname \<Rightarrow>
     (case parseValue podNamespaceKey volCtx of
        Inl err \<Rightarrow> Inl err
      | Inr podns \<Rightarrow> Inr (barname, barns, podname, podns)))))"

text \<open>The four required keys, in the order in which \<open>parseVolumeContext\<close> asks for them.\<close>

definition requiredKeys :: "string list" where
  "requiredKeys = [barNameKey, barNamespaceKey, podNameKey, podNamespaceKey]"

subsection \<open>Resources\<close>

text \<open>
  The resource types come from the COSI API package; the records keep the fields that
  client.go reads or writes, named by their path in the Go structure.
\<close>

record BucketAccessRequest =
  bar_Spec_BucketRequestName :: string
  bar_Status_AccessGranted :: bool
  bar_Status_BucketAccessName :: string

record BucketAccess =
  ba_Finalizers :: "string list"
  ba_Spec_BucketName :: string
  ba_Spec_MintedSecretName :: string
  ba_Status_AccessGranted :: bool

record BucketRequest =
  br_Status_BucketAvailable :: bool
  br_Status_BucketName :: string

record ('s3, 'az, 'gcs) Protocol =
  S3 :: "'s3 option"
  AzureBlob :: "'az option"
  GCS :: "'gcs option"

record ('s3, 'az, 'gcs) Bucket =
  bkt_Spec_Protocol :: "('s3, 'az, 'gcs) Protocol"
  bkt_Status_BucketAvailable :: bool

subsection \<open>The API clients and the trace of calls\<close>

record ('s3, 'az, 'gcs) cosiClient =
  BucketAccessRequests_Get :: "string \<Rightarrow> string \<Rightarrow> BucketAccessRequest option \<times> error option"
  BucketAccesses_Get :: "string \<Rightarrow> BucketAccess option \<times> error option"
  BucketRequests_Get :: "string \<Rightarrow> string \<Rightarrow> BucketRequest option \<times> error option"
  Buckets_Get :: "string \<Rightarrow> ('s3, 'az, 'gcs) Bucket option \<times> error option"
  BucketAccesses_Update :: "BucketAccess \<Rightarrow> BucketAccess option \<times> error option"

record 'secret kubeClient =
  Secrets_Get :: "string \<Rightarrow> string \<Rightarrow> 'secret option \<times> error option"

record ('s3, 'az, 'gcs, 'secret) NodeClient =
  cosi :: "('s3, 'az, 'gcs) cosiClient"
  kube :: "'secret kubeClient"

text \<open>One API call: the resource kind, the namespace where the kind has one, the name.\<close>

datatype call =
    GetBucketAccessRequest string string
  | GetBucketAccess string
  | GetBucketRequest string string
  | GetBucket string
  | GetSecret string string
  | UpdateBucketAccess BucketAccess

fun isGetBucketAccess :: "call \<Rightarrow> bool" where
  "isGetBucketAccess (GetBucketAccess _) = True"
| "isGetBucketAccess _ = False"

fun isGetBucketRequest :: "call \<Rightarrow> bool" where
  "isGetBucketRequest (GetBucketRequest _ _) = True"
| "isGetBucketRequest _ = False"

fun isGetBucket :: "call \<Rightarrow> bool" where
  "isGetBucket (GetBucket _) = True"
| "isGetBucket _ = False"

fun isGetSecret :: "call \<Rightarrow> bool" where
  "isGetSecret (GetSecret _ _) = True"
| "isGetSecret _ = False"

subsection \<open>The lookups\<close>

text \<open>
  Each lookup returns \<^verbatim>\<open>(nil, err)\<close> or \<^verbatim>\<open>(x, nil)\<close> with \<open>x\<close> not nil, which is a sum,
  and the calls it made.
\<close>

definition getBAR ::
  "(string \<Rightarrow> string) \<Rightarrow> ('s3, 'az, 'gcs, 'secret) NodeClient \<Rightarrow> string \<Rightarrow> string
     \<Rightarrow> (error + BucketAccessRequest) \<times> call list" where
  "getBAR q n barName barNs =
     (case BucketAccessRequests_Get (cosi n) barNs barName of
        (bar, Some err) \<Rightarrow> Inl (errors_Wrap err ''get bucketAccessRequest failed'')
      | (None, None) \<Rightarrow>
          Inl (''bucketAccessRequest is nil '' @ q (Sprintf_ns_name barNs barName))
      | (Some bar, None) \<Rightarrow>
          if \<not> bar_Status_AccessGranted bar then
            Inl (''bucketAccessRequest does not grant access ''
                   @ q (Sprintf_ns_name barNs barName))
          else if length (bar_Spec_BucketRequestName bar) = 0 then
            Inl ''bucketAccessRequest.Spec.BucketRequestName unset''
          else if length (bar_Status_BucketAccessName bar) = 0 then
            Inl ''bucketAccessRequest.Spec.BucketAccessName unset''
          else Inr bar,
      [GetBucketAccessRequest barNs barName])"

definition getBA ::
  "(string \<Rightarrow> string) \<Rightarrow> (string \<Rightarrow> string \<Rightarrow> error \<Rightarrow> error)
     \<Rightarrow> ('s3, 'az, 'gcs, 'secret) NodeClient \<Rightarrow> string
     \<Rightarrow> (error + BucketAccess) \<times> call list" where
  "getBA q getError n baName =
     (case BucketAccesses_Get (cosi n) baName of
        (ba, Some err) \<Rightarrow> Inl (logErr (getError ''bucketAccess'' baName err))
      | (None, None) \<Rightarrow> Inl (logErr (''bucketAccess is nil '' @ q baName))
      | (Some ba, None) \<Rightarrow>
          if \<not> ba_Status_AccessGranted ba then
            Inl (logErr (''bucketAccess does not grant access '' @ q baName))
          else if length (ba_Spec_MintedSecretName ba) = 0 then
            Inl (logErr ''bucketAccess.Spec.MintedSecretName unset'')
          else Inr ba,
      [GetBucketAccess baName])"

definition getBR ::
  "(string \<Rightarrow> string) \<Rightarrow> (string \<Rightarrow> string \<Rightarrow> error \<Rightarrow> error)
     \<Rightarrow> ('s3, 'az, 'gcs, 'secret) NodeClient \<Rightarrow> string \<Rightarrow> string
     \<Rightarrow> (error + BucketRequest) \<times> call list" where
  "getBR q getError n brName brNs =
     (case BucketRequests_Get (cosi n) brNs brName of
        (br, Some err) \<Rightarrow>
          Inl (logErr (getError ''bucketRequest'' (Sprintf_ns_name brNs brName) err))
      | (None, None) \<Rightarrow>
          Inl (logErr (''bucketRequest is nil '' @ q (Sprintf_ns_name brNs brName)))
      | (Some br, None) \<Rightarrow>
          if \<not> br_Status_BucketAvailable br then
            Inl (logErr (''bucketRequest is not available yet ''
                           @ q (Sprintf_ns_name brNs brName)))
          else if length (br_Status_BucketName br) = 0 then
            Inl (logErr ''bucketRequest.Spec.BucketInstanceName unset'')
          else Inr br,
      [GetBucketRequest brNs brName])"

definition getB ::
  "(string \<Rightarrow> string) \<Rightarrow> (string \<Rightarrow> string \<Rightarrow> error \<Rightarrow> error)
     \<Rightarrow> ('s3, 'az, 'gcs, 'secret) NodeClient \<Rightarrow> string
     \<Rightarrow> (error + ('s3, 'az, 'gcs) Bucket) \<times> call list" where
  "getB q getError n bName =
     (case Buckets_Get (cosi n) bName of
        (bkt, Some err) \<Rightarrow> Inl (logErr (getError ''bucket'' bName err))
      | (None, None) \<Rightarrow> Inl (logErr (''bucket is nil '' @ q bName))
      | (Some bkt, None) \<Rightarrow>
          if \<not> bkt_Status_BucketAvailable bkt then
            Inl (logErr (''bucket is not available yet '' @ q bName))
          else Inr bkt,
      [GetBucket bName])"

subsection \<open>The composite resolution\<close>

text \<open>
  \<open>GetResources\<close> has four named results, \<^verbatim>\<open>bkt\<close>, \<^verbatim>\<open>ba\<close>, \<^verbatim>\<open>secret\<close> and \<^verbatim>\<open>err\<close>,
  each \<^verbatim>\<open>nil\<close> until it is assigned, and returns them as they stand at the first
  error. The secret and the error of the last step are what the client returned; the
  error built by \<open>getError\<close> there is logged and dropped.
\<close>

definition GetResources ::
  "(string \<Rightarrow> string) \<Rightarrow> (string \<Rightarrow> string \<Rightarrow> error \<Rightarrow> error)
     \<Rightarrow> ('s3, 'az, 'gcs, 'secret) NodeClient \<Rightarrow> string \<Rightarrow> string
     \<Rightarrow> (('s3, 'az, 'gcs) Bucket option \<times> BucketAccess option \<times> 'secret option \<times> error option)
        \<times> call list" where
  "GetResources q getError n barName barNs =
     (case getBAR q n barName barNs of
        (Inl err, t1) \<Rightarrow> ((None, None, None, Some err), t1)
      | (Inr bar, t1) \<Rightarrow>
     (case getBA q getError n (bar_Status_BucketAccessName bar) of
        (Inl err, t2) \<Rightarrow> ((None, None, None, Some err), t1 @ t2)
      | (Inr ba, t2) \<Rightarrow>
     (case getB q getError n (ba_Spec_BucketName ba) of
        (Inl err, t3) \<Rightarrow> ((None, Some ba, None, Some err), t1 @ t2 @ t3)
      | (Inr bkt, t3) \<Rightarrow>
     (case Secrets_Get (kube n) barNs (ba_Spec_MintedSecretName ba) of
        (secret, err) \<Rightarrow>
          ((Some bkt, Some ba, secret, err),
           t1 @ t2 @ t3 @ [GetSecret barNs (ba_Spec_MintedSecretName ba)])))))"

subsection \<open>The protocol extractor\<close>

text \<open>
  \<^verbatim>\<open>protocolConnection\<close> is an \<^verbatim>\<open>interface{}\<close> that holds one of the three protocol
  structures, or stays \<^verbatim>\<open>nil\<close> (\<open>None\<close>) in the default branch, where the error is set.
  The payload is a byte slice, modelled as a string.
\<close>

datatype ('s3, 'az, 'gcs) protocolConnection =
    ConnS3 's3
  | ConnAzureBlob 'az
  | ConnGCS 'gcs

definition getProtocol ::
  "(('s3, 'az, 'gcs) Protocol \<Rightarrow> string)
     \<Rightarrow> (('s3, 'az, 'gcs) protocolConnection option \<Rightarrow> string \<times> error option)
     \<Rightarrow> ('s3, 'az, 'gcs) Bucket \<Rightarrow> error + string" where
  "getProtocol fmt_v json_Marshal bkt =
     (let p = bkt_Spec_Protocol bkt;
          (protocolConnection, err) =
            (case S3 p of Some s \<Rightarrow> (Some (ConnS3 s), None) | None \<Rightarrow>
             (case AzureBlob p of Some a \<Rightarrow> (Some (ConnAzureBlob a), None) | None \<Rightarrow>
              (case GCS p of Some g \<Rightarrow> (Some (ConnGCS g), None) | None \<Rightarrow>
                 (None, Some (''unrecognized protocol '' @ fmt_v p
                                @ '', unable to extract connection data'')))))
      in case err of
           Some e \<Rightarrow> Inl (logErr e)
         | None \<Rightarrow>
             (case json_Marshal protocolConnection of
                (data, Some e) \<Rightarrow> Inl (logErr e)
              | (data, None) \<Rightarrow> Inr data))"

subsection \<open>The finalizer toggle\<close>

text \<open>
  Modelled from the spec: \<^verbatim>\<open>controllerutil.AddFinalizer\<close> and
  \<^verbatim>\<open>controllerutil.RemoveFinalizer\<close> belong to controller-runtime and are not in
  client.go. The specification says that the marker list of the grant is "appended to or
  removed from" with "add/remove set semantics": adding appends the marker unless the
  list has it already, removing deletes every occurrence of the marker.
\<close>

definition AddFinalizer :: "BucketAccess \<Rightarrow> string \<Rightarrow> BucketAccess" where
  "AddFinalizer ba finalizer =
     (if finalizer \<in> set (ba_Finalizers ba) then ba
      else ba\<lparr>ba_Finalizers := ba_Finalizers ba @ [finalizer]\<rparr>)"

definition RemoveFinalizer :: "BucketAccess \<Rightarrow> string \<Rightarrow> BucketAccess" where
  "RemoveFinalizer ba finalizer =
     ba\<lparr>ba_Finalizers := filter (\<lambda>f. f \<noteq> finalizer) (ba_Finalizers ba)\<rparr>"

text \<open>
  Both operations change the object they are given in place and then send it to the
  API; the model returns the error of the update (\<open>None\<close> for \<^verbatim>\<open>nil\<close>), the object
  as the caller holds it afterwards, and the call.
\<close>

definition addBAFinalizer ::
  "('s3, 'az, 'gcs, 'secret) NodeClient \<Rightarrow> BucketAccess \<Rightarrow> string
     \<Rightarrow> (error option \<times> BucketAccess) \<times> call list" where
  "addBAFinalizer n ba BAFinalizer =
     (let ba' = AddFinalizer ba BAFinalizer
      in ((snd (BucketAccesses_Update (cosi n) ba'), ba'), [UpdateBucketAccess ba']))"

definition removeBAFinalizer ::
  "('s3, 'az, 'gcs, 'secret) NodeClient \<Rightarrow> BucketAccess \<Rightarrow> string
     \<Rightarrow> (error option \<times> BucketAccess) \<times> call list" where
  "removeBAFinalizer n ba BAFinalizer =
     (let ba' = RemoveFinalizer ba BAFinalizer
      in ((snd (BucketAccesses_Update (cosi n) ba'), ba'), [UpdateBucketAccess ba']))"

subsection \<open>A stub cluster for concrete runs\<close>

text \<open>
  The concrete runs below use a quoting function for strings that need no escape, a
  \<open>getError\<close> that wraps the cause with the kind and the identifier, and a client that
  gives one fixed answer for each kind of resource.
\<close>

definition plainQuote :: "string \<Rightarrow> string" where
  "plainQuote s = [CHR 0x22] @ s @ [CHR 0x22]"

definition wrapGetError :: "string \<Rightarrow> string \<Rightarrow> error \<Rightarrow> error" where
  "wrapGetError kind name err = ''failed to get <'' @ kind @ ''>'' @ name @ '': '' @ err"

definition stubClient ::
  "BucketAccessRequest option \<times> error option \<Rightarrow> BucketAccess option \<times> error option
     \<Rightarrow> (string, string, string) Bucket option \<times> error option \<Rightarrow> string option \<times> error option
     \<Rightarrow> (string, string, string, string) NodeClient" where
  "stubClient rbar rba rbkt rsecret =
     \<lparr>cosi = \<lparr>BucketAccessRequests_Get = (\<lambda>ns name. rbar),
               BucketAccesses_Get = (\<lambda>name. rba),
               BucketRequests_Get = (\<lambda>ns name. (None, Some ''not found'')),
               Buckets_Get = (\<lambda>name. rbkt),
               BucketAccesses_Update = (\<lambda>ba. (Some ba, None))\<rparr>,
      kube = \<lparr>Secrets_Get = (\<lambda>ns name. rsecret)\<rparr>\<rparr>"

definition okBAR :: BucketAccessRequest where
  "okBAR = \<lparr>bar_Spec_BucketRequestName = ''br1'', bar_Status_AccessGranted = True,
            bar_Status_BucketAccessName = ''ba1''\<rparr>"

definition okBA :: BucketAccess where
  "okBA = \<lparr>ba_Finalizers = [], ba_Spec_BucketName = ''bucket1'',
           ba_Spec_MintedSecretName = ''secret1'', ba_Status_AccessGranted = True\<rparr>"

definition okBucket :: "(string, string, string) Bucket" where
  "okBucket = \<lparr>bkt_Spec_Protocol = \<lparr>S3 = Some ''s3conn'', AzureBlob = None, GCS = None\<rparr>,
               bkt_Status_BucketAvailable = True\<rparr>"

text \<open>A grant that already carries a finalizer, and stubs for the JSON encoder and \<^verbatim>\<open>%+v\<close>.\<close>

definition markedBA :: BucketAccess where
  "markedBA = okBA\<lparr>ba_Finalizers := [''cosi.io/finalizer'']\<rparr>"

definition jsonStub :: "(string, string, string) protocolConnection option \<Rightarrow> string \<times> error option" where
  "jsonStub c = (case c of
       None \<Rightarrow> (''null'', None)
     | Some (ConnS3 s) \<Rightarrow> (''{s3:'' @ s @ ''}'', None)
     | Some (ConnAzureBlob a) \<Rightarrow> (''{azure:'' @ a @ ''}'', None)
     | Some (ConnGCS g) \<Rightarrow> (''{gcs:'' @ g @ ''}'', None))"

definition fmtStub :: "(string, string, string) Protocol \<Rightarrow> string" where
  "fmtStub p = ''{}''"

section \<open>Properties\<close>

subsection \<open>Parsing the volume context\<close>

lemma requiredKeys_distinct: "distinct requiredKeys"
  by (simp add: requiredKeys_def barNameKey_def barNamespaceKey_def podNameKey_def
      podNamespaceKey_def)

text \<open>
  Claim C3. When at least one of the four required keys is missing from the volume
  context, \<open>parseVolumeContext\<close> fails with the single error
  "required volume context key unset: k", where \<open>k\<close> is the first missing key in the
  order bar-name, bar-namespace, pod name, pod namespace. The keys after \<open>k\<close> are not
  looked at: every context that agrees with the given one on the keys up to and
  including \<open>k\<close> gets the same result, whatever it holds for the later keys.
\<close>

theorem parseVolumeContext_first_missing_key:
  assumes "find (\<lambda>k. volCtx k = None) requiredKeys = Some k"
  shows "parseVolumeContext volCtx = Inl (''required volume context key unset: '' @ k)
       \<and> (\<forall>volCtx'.
            (\<forall>k' \<in> set (takeWhile (\<lambda>k'. k' \<noteq> k) requiredKeys @ [k]). volCtx' k' = volCtx k')
            \<longrightarrow> parseVolumeContext volCtx' = parseVolumeContext volCtx)"
  using assms
  by (auto simp: requiredKeys_def parseVolumeContext_def parseValue_def
      split: if_splits option.splits)

theorem parseVolumeContext_first_missing_key_witness:
  "find (\<lambda>k. [barNameKey \<mapsto> ''bar1''] k = None) requiredKeys = Some barNamespaceKey
   \<and> parseVolumeContext [barNameKey \<mapsto> ''bar1'']
       = Inl ''required volume context key unset: bar-namespace''
   \<and> parseVolumeContext [barNameKey \<mapsto> ''bar1'', podNamespaceKey \<mapsto> ''default'']
       = parseVolumeContext [barNameKey \<mapsto> ''bar1'']"
proof -
  have h: "find (\<lambda>k. [barNameKey \<mapsto> ''bar1''] k = None) requiredKeys = Some barNamespaceKey"
    by (simp add: requiredKeys_def barNameKey_def barNamespaceKey_def)
  note t = parseVolumeContext_first_missing_key [OF h]
  have a: "parseVolumeContext [barNameKey \<mapsto> ''bar1'']
             = Inl ''required volume context key unset: bar-namespace''"
    using t by (simp add: barNamespaceKey_def)
  have "\<forall>k' \<in> set (takeWhile (\<lambda>k'. k' \<noteq> barNamespaceKey) requiredKeys @ [barNamespaceKey]).
          [barNameKey \<mapsto> ''bar1'', podNamespaceKey \<mapsto> ''default''] k' = [barNameKey \<mapsto> ''bar1''] k'"
    by (simp add: requiredKeys_def barNameKey_def barNamespaceKey_def podNamespaceKey_def)
  with t have b: "parseVolumeContext [barNameKey \<mapsto> ''bar1'', podNamespaceKey \<mapsto> ''default'']
                    = parseVolumeContext [barNameKey \<mapsto> ''bar1'']"
    by blast
  from h a b show ?thesis by blast
qed

text \<open>
  Claim C9. \<open>parseVolumeContext\<close> succeeds exactly when the four required keys are in
  the volume context; the values are not validated: a context that maps each required
  key to the empty string parses to four empty strings.
\<close>

theorem parseVolumeContext_succeeds_iff_keys_present:
  "((\<exists>r. parseVolumeContext volCtx = Inr r) \<longleftrightarrow> set requiredKeys \<subseteq> dom volCtx)
   \<and> ((\<forall>k \<in> set requiredKeys. volCtx k = Some [])
        \<longrightarrow> parseVolumeContext volCtx = Inr ([], [], [], []))"
  by (auto simp: requiredKeys_def parseVolumeContext_def parseValue_def
      split: if_splits option.splits)

theorem parseVolumeContext_succeeds_iff_keys_present_witness:
  "parseVolumeContext [barNameKey \<mapsto> [], barNamespaceKey \<mapsto> [], podNameKey \<mapsto> [],
                       podNamespaceKey \<mapsto> []] = Inr ([], [], [], [])
   \<and> set requiredKeys
         \<subseteq> dom [barNameKey \<mapsto> [], barNamespaceKey \<mapsto> [], podNameKey \<mapsto> [],
                   podNamespaceKey \<mapsto> ([]::string)]"
proof -
  let ?m = "[barNameKey \<mapsto> [], barNamespaceKey \<mapsto> [], podNameKey \<mapsto> [],
             podNamespaceKey \<mapsto> ([]::string)]"
  have h: "\<forall>k \<in> set requiredKeys. ?m k = Some []"
    by (simp add: requiredKeys_def barNameKey_def barNamespaceKey_def podNameKey_def
        podNamespaceKey_def)
  note t = parseVolumeContext_succeeds_iff_keys_present [of ?m]
  from t h have a: "parseVolumeContext ?m = Inr ([], [], [], [])" by blast
  with t have "set requiredKeys \<subseteq> dom ?m" by blast
  with a show ?thesis by blast
qed

subsection \<open>The steps of the composite resolution\<close>

text \<open>
  Each lookup makes exactly one call. \<open>GetResources\<close> is characterised by the step at
  which it stops.
\<close>

lemma getBAR_calls: "snd (getBAR q n barName barNs) = [GetBucketAccessRequest barNs barName]"
  by (simp add: getBAR_def)
lemma getBA_calls: "snd (getBA q ge n baName) = [GetBucketAccess baName]"
  by (simp add: getBA_def)
lemma getBR_calls: "snd (getBR q ge n brName brNs) = [GetBucketRequest brNs brName]"
  by (simp add: getBR_def)
lemma getB_calls: "snd (getB q ge n bName) = [GetBucket bName]"
  by (simp add: getB_def)

lemma GetResources_BAR_fails:
  "fst (getBAR q n barName barNs) = Inl e \<Longrightarrow>
   GetResources q ge n barName barNs = ((None, None, None, Some e), [GetBucketAccessRequest barNs barName])"
  using getBAR_calls [of q n barName barNs]
  by (cases "getBAR q n barName barNs") (simp add: GetResources_def)

lemma GetResources_BA_fails:
  "fst (getBAR q n barName barNs) = Inr bar \<Longrightarrow>
   fst (getBA q ge n (bar_Status_BucketAccessName bar)) = Inl e \<Longrightarrow>
   GetResources q ge n barName barNs = ((None, None, None, Some e), 
      [GetBucketAccessRequest barNs barName, GetBucketAccess (bar_Status_BucketAccessName bar)])"
  using getBAR_calls [of q n barName barNs] getBA_calls [of q ge n "bar_Status_BucketAccessName bar"]
  by (cases "getBAR q n barName barNs"; cases "getBA q ge n (bar_Status_BucketAccessName bar)") (simp add: GetResources_def)

lemma GetResources_B_fails:
  "fst (getBAR q n barName barNs) = Inr bar \<Longrightarrow>
   fst (getBA q ge n (bar_Status_BucketAccessName bar)) = Inr ba \<Longrightarrow>
   fst (getB q ge n (ba_Spec_BucketName ba)) = Inl e \<Longrightarrow>
   GetResources q ge n barName barNs = ((None, Some ba, None, Some e), 
      [GetBucketAccessRequest barNs barName, GetBucketAccess (bar_Status_BucketAccessName bar),
       GetBucket (ba_Spec_BucketName ba)])"
  using getBAR_calls [of q n barName barNs] getBA_calls [of q ge n "bar_Status_BucketAccessName bar"]
    getB_calls [of q ge n "ba_Spec_BucketName ba"]
  by (cases "getBAR q n barName barNs"; cases "getBA q ge n (bar_Status_BucketAccessName bar)";
      cases "getB q ge n (ba_Spec_BucketName ba)") (simp add: GetResources_def)

lemma GetResources_B_ok:
  "fst (getBAR q n barName barNs) = Inr bar \<Longrightarrow>
   fst (getBA q ge n (bar_Status_BucketAccessName bar)) = Inr ba \<Longrightarrow>
   fst (getB q ge n (ba_Spec_BucketName ba)) = Inr bkt \<Longrightarrow>
   GetResources q ge n barName barNs =
     ((Some bkt, Some ba, Secrets_Get (kube n) barNs (ba_Spec_MintedSecretName ba)),
      [GetBucketAccessRequest barNs barName, GetBucketAccess (bar_Status_BucketAccessName bar),
       GetBucket (ba_Spec_BucketName ba), GetSecret barNs (ba_Spec_MintedSecretName ba)])"
  using getBAR_calls [of q n barName barNs] getBA_calls [of q ge n "bar_Status_BucketAccessName bar"]
    getB_calls [of q ge n "ba_Spec_BucketName ba"]
  by (cases "getBAR q n barName barNs"; cases "getBA q ge n (bar_Status_BucketAccessName bar)";
      cases "getB q ge n (ba_Spec_BucketName ba)") (simp add: GetResources_def split: prod.splits)

lemma getBAR_not_granted:
  "fst (BucketAccessRequests_Get (cosi n) barNs barName) = Some bar \<Longrightarrow>
   \<not> bar_Status_AccessGranted bar \<Longrightarrow> \<exists>e. fst (getBAR q n barName barNs) = Inl e"
  by (cases "BucketAccessRequests_Get (cosi n) barNs barName") (auto simp: getBAR_def split: option.splits)

lemma getBA_not_granted:
  "fst (BucketAccesses_Get (cosi n) baName) = Some ba \<Longrightarrow>
   \<not> ba_Status_AccessGranted ba \<or> ba_Spec_MintedSecretName ba = [] \<Longrightarrow> \<exists>e. fst (getBA q ge n baName) = Inl e"
  by (cases "BucketAccesses_Get (cosi n) baName") (auto simp: getBA_def split: option.splits)

lemma getB_not_available:
  "fst (Buckets_Get (cosi n) bName) = Some bkt \<Longrightarrow>
   \<not> bkt_Status_BucketAvailable bkt \<Longrightarrow> \<exists>e. fst (getB q ge n bName) = Inl e"
  by (cases "Buckets_Get (cosi n) bName") (auto simp: getB_def split: option.splits)

lemma GetResources_no_BR: "\<forall>c \<in> set (snd (GetResources q ge n barName barNs)). \<not> isGetBucketRequest c"
proof (cases "fst (getBAR q n barName barNs)")
  case (Inl e)
  then show ?thesis by (simp add: GetResources_BAR_fails)
next
  case (Inr bar)
  note bar = this
  show ?thesis
  proof (cases "fst (getBA q ge n (bar_Status_BucketAccessName bar))")
    case (Inl e)
    with bar show ?thesis by (simp add: GetResources_BA_fails)
  next
    case (Inr ba)
    note ba = this
    show ?thesis
    proof (cases "fst (getB q ge n (ba_Spec_BucketName ba))")
      case (Inl e)
      with bar ba show ?thesis by (simp add: GetResources_B_fails)
    next
      case (Inr bkt)
      with bar ba show ?thesis by (simp add: GetResources_B_ok)
    qed
  qed
qed

subsection \<open>The stub cluster\<close>

lemma stub_simps:
  "BucketAccessRequests_Get (cosi (stubClient rbar rba rbkt rsecret)) ns name = rbar"
  "BucketAccesses_Get (cosi (stubClient rbar rba rbkt rsecret)) name = rba"
  "BucketRequests_Get (cosi (stubClient rbar rba rbkt rsecret)) ns name = (None, Some ''not found'')"
  "Buckets_Get (cosi (stubClient rbar rba rbkt rsecret)) name = rbkt"
  "BucketAccesses_Update (cosi (stubClient rbar rba rbkt rsecret)) ba = (Some ba, None)"
  "Secrets_Get (kube (stubClient rbar rba rbkt rsecret)) ns name = rsecret"
  by (simp_all add: stubClient_def)

lemma stub_getBAR_ok:
  "fst (getBAR q (stubClient (Some okBAR, None) rba rbkt rsecret) barName barNs) = Inr okBAR"
  by (simp add: getBAR_def stub_simps okBAR_def)

lemma stub_getBA_ok:
  "fst (getBA q ge (stubClient rbar (Some okBA, None) rbkt rsecret) baName) = Inr okBA"
  by (simp add: getBA_def stub_simps okBA_def)

lemma stub_getB_ok:
  "fst (getB q ge (stubClient rbar rba (Some okBucket, None) rsecret) bName) = Inr okBucket"
  by (simp add: getB_def stub_simps okBucket_def)

subsection \<open>Failing early\<close>

text \<open>
  Claim C4. When the access request that the API returns has its approval flag
  (\<^verbatim>\<open>Status.AccessGranted\<close>) false, \<open>GetResources\<close> returns an error, and the only call
  it has made is the lookup of the access request: the access grant is never looked up.
\<close>

theorem GetResources_request_not_granted:
  assumes "fst (BucketAccessRequests_Get (cosi n) barNs barName) = Some bar"
      and "\<not> bar_Status_AccessGranted bar"
  shows "\<exists>e. GetResources q ge n barName barNs
               = ((None, None, None, Some e), [GetBucketAccessRequest barNs barName])
             \<and> (\<forall>c \<in> set (snd (GetResources q ge n barName barNs)). \<not> isGetBucketAccess c)"
proof -
  from assms obtain e where "fst (getBAR q n barName barNs) = Inl e"
    using getBAR_not_granted by blast
  then have "GetResources q ge n barName barNs
               = ((None, None, None, Some e), [GetBucketAccessRequest barNs barName])"
    by (rule GetResources_BAR_fails)
  then show ?thesis by simp
qed

theorem GetResources_request_not_granted_witness:
  "fst (BucketAccessRequests_Get
          (cosi (stubClient (Some (okBAR\<lparr>bar_Status_AccessGranted := False\<rparr>), None)
                   (Some okBA, None) (Some okBucket, None) (Some ''token'', None)))
          ''ns1'' ''bar1'') = Some (okBAR\<lparr>bar_Status_AccessGranted := False\<rparr>)
   \<and> \<not> bar_Status_AccessGranted (okBAR\<lparr>bar_Status_AccessGranted := False\<rparr>)
   \<and> (\<exists>e. GetResources plainQuote wrapGetError
             (stubClient (Some (okBAR\<lparr>bar_Status_AccessGranted := False\<rparr>), None)
                (Some okBA, None) (Some okBucket, None) (Some ''token'', None))
             ''bar1'' ''ns1''
           = ((None, None, None, Some e), [GetBucketAccessRequest ''ns1'' ''bar1'']))"
proof -
  let ?bar = "okBAR\<lparr>bar_Status_AccessGranted := False\<rparr>"
  let ?n = "stubClient (Some ?bar, None) (Some okBA, None) (Some okBucket, None)
              (Some ''token'', None)"
  have h1: "fst (BucketAccessRequests_Get (cosi ?n) ''ns1'' ''bar1'') = Some ?bar"
    by (simp add: stub_simps)
  have h2: "\<not> bar_Status_AccessGranted ?bar" by simp
  from GetResources_request_not_granted [OF h1 h2, of plainQuote wrapGetError] h1 h2
  show ?thesis by blast
qed

text \<open>
  Claim C5. When the access request has passed its checks and the access grant that the
  API returns has its approval flag false or an empty \<^verbatim>\<open>Spec.MintedSecretName\<close>,
  \<open>GetResources\<close> returns an error after the lookups of the request and of the grant:
  the bucket is never looked up.
\<close>

theorem GetResources_grant_not_ready:
  assumes "fst (getBAR q n barName barNs) = Inr bar"
      and "fst (BucketAccesses_Get (cosi n) (bar_Status_BucketAccessName bar)) = Some ba"
      and "\<not> ba_Status_AccessGranted ba \<or> ba_Spec_MintedSecretName ba = []"
  shows "\<exists>e. GetResources q ge n barName barNs
               = ((None, None, None, Some e),
                  [GetBucketAccessRequest barNs barName,
                   GetBucketAccess (bar_Status_BucketAccessName bar)])
             \<and> (\<forall>c \<in> set (snd (GetResources q ge n barName barNs)). \<not> isGetBucket c)"
proof -
  from assms(2,3) obtain e where "fst (getBA q ge n (bar_Status_BucketAccessName bar)) = Inl e"
    using getBA_not_granted by blast
  with assms(1) have "GetResources q ge n barName barNs
               = ((None, None, None, Some e),
                  [GetBucketAccessRequest barNs barName,
                   GetBucketAccess (bar_Status_BucketAccessName bar)])"
    by (rule GetResources_BA_fails)
  then show ?thesis by simp
qed

theorem GetResources_grant_not_ready_witness:
  "fst (getBAR plainQuote
          (stubClient (Some okBAR, None) (Some (okBA\<lparr>ba_Spec_MintedSecretName := []\<rparr>), None)
             (Some okBucket, None) (Some ''token'', None)) ''bar1'' ''ns1'') = Inr okBAR
   \<and> ba_Spec_MintedSecretName (okBA\<lparr>ba_Spec_MintedSecretName := []\<rparr>) = []
   \<and> (\<exists>e. GetResources plainQuote wrapGetError
             (stubClient (Some okBAR, None) (Some (okBA\<lparr>ba_Spec_MintedSecretName := []\<rparr>), None)
                (Some okBucket, None) (Some ''token'', None)) ''bar1'' ''ns1''
           = ((None, None, None, Some e),
              [GetBucketAccessRequest ''ns1'' ''bar1'', GetBucketAccess ''ba1'']))"
proof -
  let ?ba = "okBA\<lparr>ba_Spec_MintedSecretName := []\<rparr>"
  let ?n = "stubClient (Some okBAR, None) (Some ?ba, None) (Some okBucket, None)
              (Some ''token'', None)"
  have h1: "fst (getBAR plainQuote ?n ''bar1'' ''ns1'') = Inr okBAR"
    by (rule stub_getBAR_ok)
  have h2: "fst (BucketAccesses_Get (cosi ?n) (bar_Status_BucketAccessName okBAR)) = Some ?ba"
    by (simp add: stub_simps)
  have h3: "\<not> ba_Status_AccessGranted ?ba \<or> ba_Spec_MintedSecretName ?ba = []" by simp
  have nm: "bar_Status_BucketAccessName okBAR = ''ba1''" by (simp add: okBAR_def)
  from GetResources_grant_not_ready [OF h1 h2 h3, of wrapGetError] h1 nm
  show ?thesis by auto
qed

text \<open>
  Claim C6. When the request and the grant have passed their checks and the bucket that
  the API returns has its availability flag (\<^verbatim>\<open>Status.BucketAvailable\<close>) false,
  \<open>GetResources\<close> returns an error after the lookups of the request, the grant and the
  bucket: the secret is never looked up.
\<close>

theorem GetResources_bucket_not_available:
  assumes "fst (getBAR q n barName barNs) = Inr bar"
      and "fst (getBA q ge n (bar_Status_BucketAccessName bar)) = Inr ba"
      and "fst (Buckets_Get (cosi n) (ba_Spec_BucketName ba)) = Some bkt"
      and "\<not> bkt_Status_BucketAvailable bkt"
  shows "\<exists>e. GetResources q ge n barName barNs
               = ((None, Some ba, None, Some e),
                  [GetBucketAccessRequest barNs barName,
                   GetBucketAccess (bar_Status_BucketAccessName bar),
                   GetBucket (ba_Spec_BucketName ba)])
             \<and> (\<forall>c \<in> set (snd (GetResources q ge n barName barNs)). \<not> isGetSecret c)"
proof -
  from assms(3,4) obtain e where "fst (getB q ge n (ba_Spec_BucketName ba)) = Inl e"
    using getB_not_available by blast
  with assms(1,2) have "GetResources q ge n barName barNs
               = ((None, Some ba, None, Some e),
                  [GetBucketAccessRequest barNs barName,
                   GetBucketAccess (bar_Status_BucketAccessName bar),
                   GetBucket (ba_Spec_BucketName ba)])"
    by (rule GetResources_B_fails)
  then show ?thesis by simp
qed

theorem GetResources_bucket_not_available_witness:
  "fst (Buckets_Get
          (cosi (stubClient (Some okBAR, None) (Some okBA, None)
                   (Some (okBucket\<lparr>bkt_Status_BucketAvailable := False\<rparr>), None)
                   (Some ''token'', None))) ''bucket1'')
     = Some (okBucket\<lparr>bkt_Status_BucketAvailable := False\<rparr>)
   \<and> \<not> bkt_Status_BucketAvailable (okBucket\<lparr>bkt_Status_BucketAvailable := False\<rparr>)
   \<and> (\<exists>e. GetResources plainQuote wrapGetError
             (stubClient (Some okBAR, None) (Some okBA, None)
                (Some (okBucket\<lparr>bkt_Status_BucketAvailable := False\<rparr>), None)
                (Some ''token'', None)) ''bar1'' ''ns1''
           = ((None, Some okBA, None, Some e),
              [GetBucketAccessRequest ''ns1'' ''bar1'', GetBucketAccess ''ba1'',
               GetBucket ''bucket1'']))"
proof -
  let ?bkt = "okBucket\<lparr>bkt_Status_BucketAvailable := False\<rparr>"
  let ?n = "stubClient (Some okBAR, None) (Some okBA, None) (Some ?bkt, None)
              (Some ''token'', None)"
  have h1: "fst (getBAR plainQuote ?n ''bar1'' ''ns1'') = Inr okBAR"
    by (rule stub_getBAR_ok)
  have h2: "fst (getBA plainQuote wrapGetError ?n (bar_Status_BucketAccessName okBAR)) = Inr okBA"
    by (rule stub_getBA_ok)
  have h3: "fst (Buckets_Get (cosi ?n) (ba_Spec_BucketName okBA)) = Some ?bkt"
    by (simp add: stub_simps)
  have h4: "\<not> bkt_Status_BucketAvailable ?bkt" by simp
  have nm: "bar_Status_BucketAccessName okBAR = ''ba1''" "ba_Spec_BucketName okBA = ''bucket1''"
    by (simp_all add: okBAR_def okBA_def)
  from GetResources_bucket_not_available [OF h1 h2 h3 h4] h3 nm
  show ?thesis by auto
qed

subsection \<open>The chain of lookups\<close>

text \<open>
  Claim C1 says that \<open>GetResources\<close> resolves four custom resources and that a
  bucket-request lookup is part of the chain. The run on a cluster where every resource
  is ready succeeds, and no bucket request has been looked up.
\<close>

theorem GetResources_bucket_request_lookup_counterexample:
  "fst (GetResources plainQuote wrapGetError
          (stubClient (Some okBAR, None) (Some okBA, None) (Some okBucket, None)
             (Some ''token'', None)) ''bar1'' ''ns1'')
     = (Some okBucket, Some okBA, Some ''token'', None)
   \<and> \<not> list_ex isGetBucketRequest
         (snd (GetResources plainQuote wrapGetError
                 (stubClient (Some okBAR, None) (Some okBA, None) (Some okBucket, None)
                    (Some ''token'', None)) ''bar1'' ''ns1''))"
  by (simp add: GetResources_B_ok [OF stub_getBAR_ok stub_getBA_ok stub_getB_ok] stub_simps)

text \<open>
  Claim C1, amended. \<open>GetResources\<close> never looks up a bucket request. When the access
  request, the access grant and the bucket pass their checks and the secret client
  reports no error, it has made exactly four calls, in this order: the access request by
  namespace and name, the access grant by the name in the request's status, the bucket by
  the name in the grant's spec, the secret by the grant's minted secret name in the
  namespace of the request; it returns the bucket, the grant and the secret.
\<close>

theorem GetResources_chain:
  "(\<forall>c \<in> set (snd (GetResources q ge n barName barNs)). \<not> isGetBucketRequest c)
   \<and> (fst (getBAR q n barName barNs) = Inr bar
        \<longrightarrow> fst (getBA q ge n (bar_Status_BucketAccessName bar)) = Inr ba
        \<longrightarrow> fst (getB q ge n (ba_Spec_BucketName ba)) = Inr bkt
        \<longrightarrow> Secrets_Get (kube n) barNs (ba_Spec_MintedSecretName ba) = (secret, None)
        \<longrightarrow> GetResources q ge n barName barNs
              = ((Some bkt, Some ba, secret, None),
                 [GetBucketAccessRequest barNs barName,
                  GetBucketAccess (bar_Status_BucketAccessName bar),
                  GetBucket (ba_Spec_BucketName ba),
                  GetSecret barNs (ba_Spec_MintedSecretName ba)]))"
  using GetResources_no_BR [of q ge n barName barNs]
    GetResources_B_ok [of q n barName barNs bar ge ba bkt]
  by simp

theorem GetResources_chain_witness:
  "GetResources plainQuote wrapGetError
     (stubClient (Some okBAR, None) (Some okBA, None) (Some okBucket, None)
        (Some ''token'', None)) ''bar1'' ''ns1''
     = ((Some okBucket, Some okBA, Some ''token'', None),
        [GetBucketAccessRequest ''ns1'' ''bar1'', GetBucketAccess ''ba1'',
         GetBucket ''bucket1'', GetSecret ''ns1'' ''secret1''])"
proof -
  let ?n = "stubClient (Some okBAR, None) (Some okBA, None) (Some okBucket, None)
              (Some ''token'', None)"
  have h1: "fst (getBAR plainQuote ?n ''bar1'' ''ns1'') = Inr okBAR"
    by (rule stub_getBAR_ok)
  have h2: "fst (getBA plainQuote wrapGetError ?n (bar_Status_BucketAccessName okBAR)) = Inr okBA"
    by (rule stub_getBA_ok)
  have h3: "fst (getB plainQuote wrapGetError ?n (ba_Spec_BucketName okBA)) = Inr okBucket"
    by (rule stub_getB_ok)
  have h4: "Secrets_Get (kube ?n) ''ns1'' (ba_Spec_MintedSecretName okBA) = (Some ''token'', None)"
    by (simp add: stub_simps)
  have nm: "bar_Status_BucketAccessName okBAR = ''ba1''" "ba_Spec_BucketName okBA = ''bucket1''"
    "ba_Spec_MintedSecretName okBA = ''secret1''"
    by (simp_all add: okBAR_def okBA_def)
  from GetResources_chain [of plainQuote wrapGetError ?n "''bar1''" "''ns1''" okBAR okBA okBucket
      "Some ''token''"] h1 h2 h3 h4 nm
  show ?thesis by simp
qed

subsection \<open>What is returned with an error\<close>

text \<open>
  Claim C10 says that the secret is nil when the secret lookup fails. The secret returned
  is the one the client returned with its error: a client that answers with an empty
  object and an error makes \<open>GetResources\<close> return that object.
\<close>

theorem GetResources_secret_nil_counterexample:
  "snd (Secrets_Get
          (kube (stubClient (Some okBAR, None) (Some okBA, None) (Some okBucket, None)
                   (Some ''empty'', Some ''connection refused''))) ''ns1'' ''secret1'')
     = Some ''connection refused''
   \<and> fst (GetResources plainQuote wrapGetError
          (stubClient (Some okBAR, None) (Some okBA, None) (Some okBucket, None)
             (Some ''empty'', Some ''connection refused'')) ''bar1'' ''ns1'')
     = (Some okBucket, Some okBA, Some ''empty'', Some ''connection refused'')"
  by (simp add: GetResources_B_ok [OF stub_getBAR_ok stub_getBA_ok stub_getB_ok] stub_simps)

text \<open>
  Claim C10, amended. The results of the earlier steps are returned with the error of a
  later step. When the bucket lookup fails, the grant fetched before is returned and
  the bucket and the secret are nil. When the secret client returns an error, the grant
  and the bucket fetched before are returned, and the secret is what the client returned
  with its error (nil when the client returned nil).
\<close>

theorem GetResources_keeps_earlier_results:
  "(fst (getBAR q n barName barNs) = Inr bar
      \<longrightarrow> fst (getBA q ge n (bar_Status_BucketAccessName bar)) = Inr ba
      \<longrightarrow> fst (getB q ge n (ba_Spec_BucketName ba)) = Inl e
      \<longrightarrow> fst (GetResources q ge n barName barNs) = (None, Some ba, None, Some e))
   \<and> (fst (getBAR q n barName barNs) = Inr bar
      \<longrightarrow> fst (getBA q ge n (bar_Status_BucketAccessName bar)) = Inr ba
      \<longrightarrow> fst (getB q ge n (ba_Spec_BucketName ba)) = Inr bkt
      \<longrightarrow> Secrets_Get (kube n) barNs (ba_Spec_MintedSecretName ba) = (secret, Some e)
      \<longrightarrow> fst (GetResources q ge n barName barNs) = (Some bkt, Some ba, secret, Some e))"
  using GetResources_B_fails [of q n barName barNs bar ge ba e]
    GetResources_B_ok [of q n barName barNs bar ge ba bkt]
  by simp

theorem GetResources_keeps_earlier_results_witness:
  "fst (GetResources plainQuote wrapGetError
          (stubClient (Some okBAR, None) (Some okBA, None) (None, Some ''not found'')
             (Some ''token'', None)) ''bar1'' ''ns1'')
     = (None, Some okBA, None, Some (wrapGetError ''bucket'' ''bucket1'' ''not found''))
   \<and> fst (GetResources plainQuote wrapGetError
          (stubClient (Some okBAR, None) (Some okBA, None) (Some okBucket, None)
             (None, Some ''not found'')) ''bar1'' ''ns1'')
     = (Some okBucket, Some okBA, None, Some ''not found'')"
proof -
  let ?n1 = "stubClient (Some okBAR, None) (Some okBA, None) (None, Some ''not found'')
              (Some ''token'', None)"
  let ?n2 = "stubClient (Some okBAR, None) (Some okBA, None) (Some okBucket, None)
              (None, Some ''not found'')"
  have a1: "fst (getBAR plainQuote ?n1 ''bar1'' ''ns1'') = Inr okBAR"
    by (rule stub_getBAR_ok)
  have a2: "fst (getBA plainQuote wrapGetError ?n1 (bar_Status_BucketAccessName okBAR)) = Inr okBA"
    by (rule stub_getBA_ok)
  have a3: "fst (getB plainQuote wrapGetError ?n1 (ba_Spec_BucketName okBA))
              = Inl (wrapGetError ''bucket'' ''bucket1'' ''not found'')"
    by (simp add: getB_def stub_simps logErr_def okBA_def)
  have b1: "fst (getBAR plainQuote ?n2 ''bar1'' ''ns1'') = Inr okBAR"
    by (rule stub_getBAR_ok)
  have b2: "fst (getBA plainQuote wrapGetError ?n2 (bar_Status_BucketAccessName okBAR)) = Inr okBA"
    by (rule stub_getBA_ok)
  have b3: "fst (getB plainQuote wrapGetError ?n2 (ba_Spec_BucketName okBA)) = Inr okBucket"
    by (rule stub_getB_ok)
  have b4: "Secrets_Get (kube ?n2) ''ns1'' (ba_Spec_MintedSecretName okBA)
              = (None, Some ''not found'')"
    by (simp add: stub_simps)
  have x: "fst (GetResources plainQuote wrapGetError ?n1 ''bar1'' ''ns1'')
             = (None, Some okBA, None, Some (wrapGetError ''bucket'' ''bucket1'' ''not found''))"
    using GetResources_keeps_earlier_results [of plainQuote ?n1 "''bar1''" "''ns1''" okBAR
        wrapGetError okBA "wrapGetError ''bucket'' ''bucket1'' ''not found''"] a1 a2 a3
    by blast
  have y: "fst (GetResources plainQuote wrapGetError ?n2 ''bar1'' ''ns1'')
             = (Some okBucket, Some okBA, None, Some ''not found'')"
    using GetResources_keeps_earlier_results [of plainQuote ?n2 "''bar1''" "''ns1''" okBAR
        wrapGetError okBA "''not found''" okBucket None] b1 b2 b3 b4
    by blast
  from x y show ?thesis by blast
qed

subsection \<open>Error messages of the lookups\<close>








subsection \<open>The finalizer toggle\<close>

text \<open>
  Claim C7 says that adding a finalizer and then removing the same finalizer leaves the
  finalizer list of every grant as it was. On a grant that already carries the
  finalizer the addition changes nothing and the removal deletes it: the list
  ["cosi.io/finalizer"] ends empty.
\<close>

theorem add_remove_finalizer_counterexample:
  "ba_Finalizers markedBA = [''cosi.io/finalizer'']
   \<and> ba_Finalizers
        (snd (fst (removeBAFinalizer
                     (stubClient (Some okBAR, None) (Some markedBA, None) (Some okBucket, None)
                        (Some ''token'', None))
                     (snd (fst (addBAFinalizer
                                  (stubClient (Some okBAR, None) (Some markedBA, None)
                                     (Some okBucket, None) (Some ''token'', None))
                                  markedBA ''cosi.io/finalizer'')))
                     ''cosi.io/finalizer''))) = []"
  by (simp add: markedBA_def addBAFinalizer_def removeBAFinalizer_def AddFinalizer_def
      RemoveFinalizer_def Let_def)

text \<open>
  Claim C7, amended. For every access grant whose finalizer list does not contain the
  marker, \<open>addBAFinalizer\<close> followed by \<open>removeBAFinalizer\<close> for the same marker
  leaves the finalizer list, and the whole object, equal to the original; the first
  update sends the grant with the marker appended, the second sends the original grant.
\<close>

theorem add_remove_finalizer:
  assumes "BAFinalizer \<notin> set (ba_Finalizers ba)"
  shows "ba_Finalizers
           (snd (fst (removeBAFinalizer n (snd (fst (addBAFinalizer n ba BAFinalizer)))
                        BAFinalizer))) = ba_Finalizers ba
       \<and> snd (fst (removeBAFinalizer n (snd (fst (addBAFinalizer n ba BAFinalizer))) BAFinalizer))
           = ba
       \<and> snd (removeBAFinalizer n (snd (fst (addBAFinalizer n ba BAFinalizer))) BAFinalizer)
           = [UpdateBucketAccess ba]
       \<and> snd (addBAFinalizer n ba BAFinalizer)
           = [UpdateBucketAccess (ba\<lparr>ba_Finalizers := ba_Finalizers ba @ [BAFinalizer]\<rparr>)]"
proof -
  have "filter (\<lambda>f. f \<noteq> BAFinalizer) (ba_Finalizers ba) = ba_Finalizers ba"
    using assms by (auto simp: filter_id_conv)
  with assms show ?thesis
    by (simp add: addBAFinalizer_def removeBAFinalizer_def AddFinalizer_def
      RemoveFinalizer_def Let_def)
qed

theorem add_remove_finalizer_witness:
  "''cosi.io/finalizer'' \<notin> set (ba_Finalizers okBA)
   \<and> snd (fst (removeBAFinalizer
                 (stubClient (Some okBAR, None) (Some okBA, None) (Some okBucket, None)
                    (Some ''token'', None))
                 (snd (fst (addBAFinalizer
                              (stubClient (Some okBAR, None) (Some okBA, None)
                                 (Some okBucket, None) (Some ''token'', None))
                              okBA ''cosi.io/finalizer'')))
                 ''cosi.io/finalizer'')) = okBA"
proof -
  have h: "''cosi.io/finalizer'' \<notin> set (ba_Finalizers okBA)"
    by (simp add: okBA_def)
  from add_remove_finalizer [OF h] h show ?thesis by blast
qed

subsection \<open>The protocol extractor\<close>

text \<open>
  Claim C2. \<open>getProtocol\<close> looks at the protocol variants in the order S3, AzureBlob,
  GCS and returns the JSON encoding of the first one that is set: of S3 when S3 is set,
  whatever the others are; of AzureBlob when S3 is not set and AzureBlob is; of GCS when
  only GCS is set. When none is set it returns the "unrecognized protocol" error. The
  payload is the one \<^verbatim>\<open>json.Marshal\<close> returns for the selected variant.
\<close>

theorem getProtocol_priority:
  "(S3 (bkt_Spec_Protocol bkt) = Some s \<longrightarrow> json_Marshal (Some (ConnS3 s)) = (data, None)
      \<longrightarrow> getProtocol fmt_v json_Marshal bkt = Inr data)
   \<and> (S3 (bkt_Spec_Protocol bkt) = None \<longrightarrow> AzureBlob (bkt_Spec_Protocol bkt) = Some a
      \<longrightarrow> json_Marshal (Some (ConnAzureBlob a)) = (data, None)
      \<longrightarrow> getProtocol fmt_v json_Marshal bkt = Inr data)
   \<and> (S3 (bkt_Spec_Protocol bkt) = None \<longrightarrow> AzureBlob (bkt_Spec_Protocol bkt) = None
      \<longrightarrow> GCS (bkt_Spec_Protocol bkt) = Some g
      \<longrightarrow> json_Marshal (Some (ConnGCS g)) = (data, None)
      \<longrightarrow> getProtocol fmt_v json_Marshal bkt = Inr data)
   \<and> (S3 (bkt_Spec_Protocol bkt) = None \<longrightarrow> AzureBlob (bkt_Spec_Protocol bkt) = None
      \<longrightarrow> GCS (bkt_Spec_Protocol bkt) = None
      \<longrightarrow> getProtocol fmt_v json_Marshal bkt
            = Inl (''unrecognized protocol '' @ fmt_v (bkt_Spec_Protocol bkt)
                     @ '', unable to extract connection data''))"
  by (simp add: getProtocol_def logErr_def)

theorem getProtocol_priority_witness:
  "getProtocol fmtStub jsonStub
     \<lparr>bkt_Spec_Protocol = \<lparr>S3 = Some ''a'', AzureBlob = None, GCS = Some ''c''\<rparr>,
      bkt_Status_BucketAvailable = True\<rparr> = Inr ''{s3:a}''
   \<and> getProtocol fmtStub jsonStub
     \<lparr>bkt_Spec_Protocol = \<lparr>S3 = None, AzureBlob = Some ''b'', GCS = None\<rparr>,
      bkt_Status_BucketAvailable = True\<rparr> = Inr ''{azure:b}''
   \<and> getProtocol fmtStub jsonStub
     \<lparr>bkt_Spec_Protocol = \<lparr>S3 = None, AzureBlob = None, GCS = Some ''c''\<rparr>,
      bkt_Status_BucketAvailable = True\<rparr> = Inr ''{gcs:c}''
   \<and> getProtocol fmtStub jsonStub
     \<lparr>bkt_Spec_Protocol = \<lparr>S3 = None, AzureBlob = None, GCS = None\<rparr>,
      bkt_Status_BucketAvailable = True\<rparr>
       = Inl ''unrecognized protocol {}, unable to extract connection data''"
proof -
  let ?b1 = "\<lparr>bkt_Spec_Protocol = \<lparr>S3 = Some ''a'', AzureBlob = None, GCS = Some ''c''\<rparr>,
              bkt_Status_BucketAvailable = True\<rparr>"
  let ?b2 = "\<lparr>bkt_Spec_Protocol = \<lparr>S3 = None, AzureBlob = Some ''b'', GCS = None\<rparr>,
              bkt_Status_BucketAvailable = True\<rparr>"
  let ?b3 = "\<lparr>bkt_Spec_Protocol = \<lparr>S3 = None, AzureBlob = None, GCS = Some ''c''\<rparr>,
              bkt_Status_BucketAvailable = True\<rparr>"
  let ?b4 = "\<lparr>bkt_Spec_Protocol = \<lparr>S3 = None::string option, AzureBlob = None::string option,
                                    GCS = None::string option\<rparr>,
              bkt_Status_BucketAvailable = True\<rparr>"
  have j: "jsonStub (Some (ConnS3 ''a'')) = (''{s3:a}'', None)"
    "jsonStub (Some (ConnAzureBlob ''b'')) = (''{azure:b}'', None)"
    "jsonStub (Some (ConnGCS ''c'')) = (''{gcs:c}'', None)"
    by (simp_all add: jsonStub_def)
  have a: "getProtocol fmtStub jsonStub ?b1 = Inr ''{s3:a}''"
    using getProtocol_priority [of ?b1 "''a''" jsonStub "''{s3:a}''" fmtStub] j by simp
  have b: "getProtocol fmtStub jsonStub ?b2 = Inr ''{azure:b}''"
    using getProtocol_priority [of ?b2 _ jsonStub "''{azure:b}''" fmtStub "''b''"] j by simp
  have c: "getProtocol fmtStub jsonStub ?b3 = Inr ''{gcs:c}''"
    using getProtocol_priority [of ?b3 _ jsonStub "''{gcs:c}''" fmtStub _ "''c''"] j by simp
  have d: "getProtocol fmtStub jsonStub ?b4
             = Inl ''unrecognized protocol {}, unable to extract connection data''"
    using getProtocol_priority [of ?b4 _ jsonStub _ fmtStub] by (simp add: fmtStub_def)
  from a b c d show ?thesis by blast
qed

end
